theory Spec2Isabelle
  imports Main
begin

section \<open>Data model of \<open>src/cdksubnetroutetable.ts\<close>\<close>

text \<open>
  The construct \<open>SubnetWithRouteTable\<close> declares four kinds of CloudFormation resources
  under its own node of the construct tree. The input interfaces are records; TypeScript's
  optional properties (\<open>routeEntries?\<close>, \<open>subnetTags?\<close>, \<open>routeTableTags?\<close>) are
  \<open>option\<close>s, \<open>None\<close> standing for \<open>undefined\<close>.

  \<open>targetType\<close> is declared as a union of four string literals. The union is erased at run
  time and \<open>resolveTarget\<close> keeps a \<open>default\<close> branch for any other string, so the field is
  a \<open>string\<close> here and the four literals are the values the \<open>switch\<close> compares against.

  A tag object \<open>{ [key: string]: string }\<close> is the list of its own enumerable properties in
  the order in which \<open>Object.entries\<close> enumerates them.
\<close>

record RouteEntry =
  destinationCidr :: string
  targetType :: string
  targetId :: string

record CustomRouteTableProps =
  vpcId :: string
  cidrBlock :: string
  availabilityZone :: string
  routeEntries :: "RouteEntry list option"
  subnetTags :: "(string \<times> string) list option"
  routeTableTags :: "(string \<times> string) list option"

text \<open>\<open>cdk.CfnTag\<close>: the object \<open>{ key, value }\<close>.\<close>

record CfnTag =
  tagKey :: string
  tagValue :: string

text \<open>
  \<open>x.ref\<close> of a resource \<open>x\<close> is a reference to the resource declared under the given id in
  this construct's node.
\<close>

datatype ref = Ref string

text \<open>
  The property objects handed to the four resource classes. Of the target properties of
  \<open>ec2.CfnRoute\<close> only the four that \<open>resolveTarget\<close> can name are kept; a property that is
  not set is \<open>None\<close>.
\<close>

record CfnSubnetProps =
  subnet_vpcId :: string
  subnet_cidrBlock :: string
  subnet_availabilityZone :: string
  mapPublicIpOnLaunch :: bool
  subnet_tags :: "CfnTag list option"

record CfnRouteTableProps =
  rt_vpcId :: string
  rt_tags :: "CfnTag list option"

record CfnSubnetRouteTableAssociationProps =
  subnetId :: ref
  assoc_routeTableId :: ref

text \<open>The object returned by \<open>resolveTarget\<close> (declared \<open>any\<close> in the source).\<close>

record TargetBinding =
  transitGatewayId :: "string option"
  vpcEndpointId :: "string option"
  gatewayId :: "string option"
  natGatewayId :: "string option"

record CfnRouteProps = TargetBinding +
  routeTableId :: ref
  destinationCidrBlock :: string

datatype resource =
    CfnSubnet CfnSubnetProps
  | CfnRouteTable CfnRouteTableProps
  | CfnSubnetRouteTableAssociation CfnSubnetRouteTableAssociationProps
  | CfnRoute CfnRouteProps

text \<open>
  \<open>Error msg\<close> is the JavaScript \<open>Error\<close> thrown by the source with message \<open>msg\<close>.
  \<open>ConstructNameTaken name\<close> is the rejection by the \<open>Construct\<close> base class of a child
  whose id is already used in its scope.
\<close>

datatype error = Error string | ConstructNameTaken string

section \<open>\<open>resolveTarget\<close>\<close>

definition resolveTarget :: "RouteEntry \<Rightarrow> error + TargetBinding" where
  "resolveTarget entry =
     (if targetType entry = ''tgw'' then
        Inr \<lparr>transitGatewayId = Some (targetId entry), vpcEndpointId = None,
             gatewayId = None, natGatewayId = None\<rparr>
      else if targetType entry = ''vpc-endpoint'' then
        Inr \<lparr>transitGatewayId = None, vpcEndpointId = Some (targetId entry),
             gatewayId = None, natGatewayId = None\<rparr>
      else if targetType entry = ''internet-gateway'' then
        Inr \<lparr>transitGatewayId = None, vpcEndpointId = None,
             gatewayId = Some (targetId entry), natGatewayId = None\<rparr>
      else if targetType entry = ''nat-gateway'' then
        Inr \<lparr>transitGatewayId = None, vpcEndpointId = None,
             gatewayId = None, natGatewayId = Some (targetId entry)\<rparr>
      else Inl (Error (''Unsupported target type: '' @ targetType entry)))"

section \<open>\<open>convertTagsToCdkFormat\<close>\<close>

definition convertTagsToCdkFormat :: "(string \<times> string) list option \<Rightarrow> CfnTag list option" where
  "convertTagsToCdkFormat tags =
     (case tags of
        None \<Rightarrow> None
      | Some entries \<Rightarrow> Some (map (\<lambda>(k, v). \<lparr>tagKey = k, tagValue = v\<rparr>) entries))"

section \<open>The construct tree\<close>

text \<open>
  A node of the construct tree holds its children by id, in the order in which they were
  created. \<open>new C(scope, id, \<dots>)\<close> registers the new child under \<open>id\<close> in \<open>scope\<close>. The
  registration is done by the \<open>Construct\<close> base class of the package \<open>constructs\<close>, which
  the source imports and every resource class extends; it throws
  \<open>There is already a Construct with name '\<dots>'\<close> for an id that the scope already holds.
  \<open>addChild\<close> is that registration.
\<close>

type_synonym node = "(string \<times> resource) list"

definition addChild :: "(string \<times> 'a) list \<Rightarrow> string \<Rightarrow> 'a \<Rightarrow> error + (string \<times> 'a) list" where
  "addChild children name child =
     (if name \<in> set (map fst children) then Inl (ConstructNameTaken name)
      else Inr (children @ [(name, child)]))"

text \<open>
  A call either returns or throws. Both carry the node of \<open>this\<close> as the call left it: what
  was declared before a \<open>throw\<close> stays in the tree.
\<close>

datatype 'a outcome = Done 'a | Failed error 'a

fun nodeOf :: "'a outcome \<Rightarrow> 'a" where
  "nodeOf (Done self) = self"
| "nodeOf (Failed e self) = self"

definition andThen :: "'a outcome \<Rightarrow> ('a \<Rightarrow> 'a outcome) \<Rightarrow> 'a outcome" where
  "andThen r f = (case r of Done self \<Rightarrow> f self | Failed e self \<Rightarrow> Failed e self)"

text \<open>\<open>new ec2.CfnXxx(this, name, props)\<close>.\<close>

definition newResource :: "node \<Rightarrow> string \<Rightarrow> resource \<Rightarrow> node outcome" where
  "newResource self name r =
     (case addChild self name r of Inl e \<Rightarrow> Failed e self | Inr self' \<Rightarrow> Done self')"

section \<open>\<open>addRouteTableEntries\<close>\<close>

text \<open>
  The template literal \<open>`Route${index}`\<close>: \<open>index\<close> is a non-negative integer, rendered in
  decimal without leading zeros. \<open>digit\<close> is only applied to numbers below ten.
\<close>

definition digit :: "nat \<Rightarrow> char" where
  "digit d = ''0123456789'' ! d"

fun numberToString :: "nat \<Rightarrow> string" where
  "numberToString n =
     (if n < 10 then [digit n]
      else numberToString (n div 10) @ [digit (n mod 10)])"

declare numberToString.simps [simp del]

definition routeName :: "nat \<Rightarrow> string" where
  "routeName index = ''Route'' @ numberToString index"

text \<open>
  The object literal passed to \<open>ec2.CfnRoute\<close>; \<open>target\<close> is the object that is spread into
  it. \<open>this.routeTable\<close> is the resource the constructor declared as \<open>'RouteTable'\<close>.
\<close>

definition routeProps :: "RouteEntry \<Rightarrow> TargetBinding \<Rightarrow> CfnRouteProps" where
  "routeProps entry target =
     \<lparr>transitGatewayId = transitGatewayId target, vpcEndpointId = vpcEndpointId target,
      gatewayId = gatewayId target, natGatewayId = natGatewayId target,
      routeTableId = Ref ''RouteTable'', destinationCidrBlock = destinationCidr entry\<rparr>"

text \<open>
  \<open>routeEntries.forEach((entry, index) => \<dots>)\<close>, from \<open>index\<close> on. The argument object is
  built before \<open>CfnRoute\<close> is constructed, so a \<open>throw\<close> of \<open>resolveTarget\<close> comes first.
\<close>

fun forEachEntry :: "nat \<Rightarrow> RouteEntry list \<Rightarrow> node \<Rightarrow> node outcome" where
  "forEachEntry index [] self = Done self"
| "forEachEntry index (entry # rest) self =
     (case resolveTarget entry of
        Inl e \<Rightarrow> Failed e self
      | Inr target \<Rightarrow>
          (case newResource self (routeName index) (CfnRoute (routeProps entry target)) of
             Failed e self' \<Rightarrow> Failed e self'
           | Done self' \<Rightarrow> forEachEntry (Suc index) rest self'))"

definition addRouteTableEntries :: "node \<Rightarrow> RouteEntry list \<Rightarrow> node outcome" where
  "addRouteTableEntries self entries = forEachEntry 0 entries self"

section \<open>The constructor\<close>

text \<open>
  \<open>scope\<close> is the enclosing construct's list of children and \<open>ident\<close> the id of the new
  construct. \<open>super(scope, id)\<close> registers the new, empty node in \<open>scope\<close>; the result is the
  node of the new construct.
\<close>

definition constructor ::
    "(string \<times> node) list \<Rightarrow> string \<Rightarrow> CustomRouteTableProps \<Rightarrow> node outcome" where
  "constructor scope ident props =
     (case addChild scope ident [] of
        Inl e \<Rightarrow> Failed e []
      | Inr _ \<Rightarrow>
          andThen (newResource [] ''Subnet''
                    (CfnSubnet \<lparr>subnet_vpcId = vpcId props, subnet_cidrBlock = cidrBlock props,
                       subnet_availabilityZone = availabilityZone props,
                       mapPublicIpOnLaunch = False,
                       subnet_tags = convertTagsToCdkFormat (subnetTags props)\<rparr>))
            (\<lambda>self.
          andThen (newResource self ''RouteTable''
                    (CfnRouteTable \<lparr>rt_vpcId = vpcId props,
                       rt_tags = convertTagsToCdkFormat (routeTableTags props)\<rparr>))
            (\<lambda>self.
          andThen (newResource self ''SubnetRouteTableAssoc''
                    (CfnSubnetRouteTableAssociation
                       \<lparr>subnetId = Ref ''Subnet'', assoc_routeTableId = Ref ''RouteTable''\<rparr>))
            (\<lambda>self.
          (case routeEntries props of
             None \<Rightarrow> Done self
           | Some entries \<Rightarrow> addRouteTableEntries self entries)))))"

section \<open>Observations on a node\<close>

text \<open>The \<open>Route\<close> and \<open>Subnet\<close> resources of a node, in declaration order.\<close>

fun isRoute :: "string \<times> resource \<Rightarrow> bool" where
  "isRoute (name, CfnRoute p) = True"
| "isRoute (name, r) = False"

definition routesOf :: "node \<Rightarrow> node" where
  "routesOf self = filter isRoute self"

fun subnetProps :: "string \<times> resource \<Rightarrow> CfnSubnetProps list" where
  "subnetProps (name, CfnSubnet p) = [p]"
| "subnetProps (name, r) = []"

definition subnetsOf :: "node \<Rightarrow> CfnSubnetProps list" where
  "subnetsOf self = concat (map subnetProps self)"

text \<open>
  The target properties that are present in a property object, by name, as the own keys of
  the JavaScript object.
\<close>

definition present :: "string \<Rightarrow> string option \<Rightarrow> (string \<times> string) list" where
  "present name v = (case v of None \<Rightarrow> [] | Some x \<Rightarrow> [(name, x)])"

definition populatedTargets :: "'a TargetBinding_scheme \<Rightarrow> (string \<times> string) list" where
  "populatedTargets p =
     present ''transitGatewayId'' (transitGatewayId p) @
     present ''vpcEndpointId'' (vpcEndpointId p) @
     present ''gatewayId'' (gatewayId p) @
     present ''natGatewayId'' (natGatewayId p)"

fun exclusiveRoute :: "string \<times> resource \<Rightarrow> bool" where
  "exclusiveRoute (name, CfnRoute p) = (length (populatedTargets p) = 1)"
| "exclusiveRoute (name, r) = False"

definition supportedTargetType :: "string \<Rightarrow> bool" where
  "supportedTargetType k =
     (k \<in> set [''tgw'', ''vpc-endpoint'', ''internet-gateway'', ''nat-gateway''])"

text \<open>
  The route declared for the entry at position \<open>k\<close>: named after \<open>k\<close>, in the construct's
  route table, to the entry's destination, with the entry's \<open>targetId\<close> as its only target.
\<close>

fun routeMatchesEntry :: "nat \<times> RouteEntry \<Rightarrow> string \<times> resource \<Rightarrow> bool" where
  "routeMatchesEntry (k, entry) (name, CfnRoute p) =
     (name = routeName k \<and> routeTableId p = Ref ''RouteTable'' \<and>
      destinationCidrBlock p = destinationCidr entry \<and>
      map snd (populatedTargets p) = [targetId entry])"
| "routeMatchesEntry (k, entry) (name, r) = False"

text \<open>\<open>props.routeEntries\<close>, an absent list read as the empty one.\<close>

definition entriesOf :: "CustomRouteTableProps \<Rightarrow> RouteEntry list" where
  "entriesOf props = (case routeEntries props of None \<Rightarrow> [] | Some entries \<Rightarrow> entries)"

text \<open>
  The node after the three declarations that the constructor makes before it looks at
  \<open>props.routeEntries\<close>.
\<close>

definition baseResources :: "CustomRouteTableProps \<Rightarrow> node" where
  "baseResources props =
     [(''Subnet'',
        CfnSubnet \<lparr>subnet_vpcId = vpcId props, subnet_cidrBlock = cidrBlock props,
          subnet_availabilityZone = availabilityZone props, mapPublicIpOnLaunch = False,
          subnet_tags = convertTagsToCdkFormat (subnetTags props)\<rparr>),
      (''RouteTable'',
        CfnRouteTable \<lparr>rt_vpcId = vpcId props,
          rt_tags = convertTagsToCdkFormat (routeTableTags props)\<rparr>),
      (''SubnetRouteTableAssoc'',
        CfnSubnetRouteTableAssociation
          \<lparr>subnetId = Ref ''Subnet'', assoc_routeTableId = Ref ''RouteTable''\<rparr>)]"

section \<open>Example inputs\<close>

abbreviation igwEntry :: RouteEntry where
  "igwEntry \<equiv>
     \<lparr>destinationCidr = ''0.0.0.0/0'', targetType = ''internet-gateway'',
      targetId = ''igw-123''\<rparr>"

abbreviation natEntry :: RouteEntry where
  "natEntry \<equiv>
     \<lparr>destinationCidr = ''10.0.0.0/8'', targetType = ''nat-gateway'', targetId = ''nat-1''\<rparr>"

abbreviation vpnEntry :: RouteEntry where
  "vpnEntry \<equiv>
     \<lparr>destinationCidr = ''10.0.0.0/8'', targetType = ''vpn-gateway'', targetId = ''vgw-1''\<rparr>"

abbreviation segment :: "RouteEntry list option \<Rightarrow> CustomRouteTableProps" where
  "segment entries \<equiv>
     \<lparr>vpcId = ''vpc-1'', cidrBlock = ''10.0.1.0/24'', availabilityZone = ''us-east-1a'',
      routeEntries = entries, subnetTags = None, routeTableTags = None\<rparr>"

abbreviation igwRoute0 :: "string \<times> resource" where
  "igwRoute0 \<equiv>
     (''Route0'',
      CfnRoute \<lparr>transitGatewayId = None, vpcEndpointId = None, gatewayId = Some ''igw-123'',
        natGatewayId = None, routeTableId = Ref ''RouteTable'',
        destinationCidrBlock = ''0.0.0.0/0''\<rparr>)"

abbreviation segmentBase :: node where
  "segmentBase \<equiv>
     [(''Subnet'',
        CfnSubnet \<lparr>subnet_vpcId = ''vpc-1'', subnet_cidrBlock = ''10.0.1.0/24'',
          subnet_availabilityZone = ''us-east-1a'', mapPublicIpOnLaunch = False,
          subnet_tags = None\<rparr>),
      (''RouteTable'', CfnRouteTable \<lparr>rt_vpcId = ''vpc-1'', rt_tags = None\<rparr>),
      (''SubnetRouteTableAssoc'',
        CfnSubnetRouteTableAssociation
          \<lparr>subnetId = Ref ''Subnet'', assoc_routeTableId = Ref ''RouteTable''\<rparr>)]"

section \<open>Route names\<close>

lemma digit_inj: "a < 10 \<Longrightarrow> b < 10 \<Longrightarrow> digit a = digit b \<Longrightarrow> a = b"
proof -
  assume a: "a < 10" and b: "b < 10" and e: "digit a = digit b"
  have d: "distinct ''0123456789''" by simp
  have "length ''0123456789'' = 10" by simp
  with a b e d show "a = b"
    unfolding digit_def by (metis nth_eq_iff_index_eq)
qed

lemma digit_in: "d < 10 \<Longrightarrow> digit d \<in> set ''0123456789''"
  unfolding digit_def by (rule nth_mem) simp

lemma numberToString_nonempty: "numberToString n \<noteq> []"
  by (subst numberToString.simps) simp

lemma numberToString_digits: "set (numberToString n) \<subseteq> set ''0123456789''"
proof (induction n rule: numberToString.induct)
  case (1 n)
  show ?case
  proof (cases "n < 10")
    case True
    then show ?thesis
      using digit_in [of n] by (subst numberToString.simps) simp
  next
    case False
    have "n mod 10 < 10" by simp
    from digit_in [OF this] 1 [OF False] False show ?thesis
      by (subst numberToString.simps) simp
  qed
qed

lemma numberToString_inj: "numberToString n = numberToString m \<Longrightarrow> n = m"
proof (induction n arbitrary: m rule: numberToString.induct)
  case (1 n)
  show ?case
  proof (cases "n < 10")
    case n: True
    show ?thesis
    proof (cases "m < 10")
      case True
      with n 1(2) have "digit n = digit m"
        by (simp add: numberToString.simps [of n] numberToString.simps [of m])
      with n True show ?thesis by (rule digit_inj)
    next
      case False
      with n 1(2) have "[digit n] = numberToString (m div 10) @ [digit (m mod 10)]"
        by (simp add: numberToString.simps [of n] numberToString.simps [of m])
      then have "numberToString (m div 10) = []" by simp
      then show ?thesis by (simp add: numberToString_nonempty)
    qed
  next
    case n: False
    show ?thesis
    proof (cases "m < 10")
      case True
      with n 1(2) have "numberToString (n div 10) @ [digit (n mod 10)] = [digit m]"
        by (simp add: numberToString.simps [of n] numberToString.simps [of m])
      then have "numberToString (n div 10) = []" by simp
      then show ?thesis by (simp add: numberToString_nonempty)
    next
      case False
      with n 1(2) have eq: "numberToString (n div 10) @ [digit (n mod 10)]
          = numberToString (m div 10) @ [digit (m mod 10)]"
        by (simp add: numberToString.simps [of n] numberToString.simps [of m])
      then have "numberToString (n div 10) = numberToString (m div 10)" by simp
      with 1(1) [OF n] have q: "n div 10 = m div 10" by simp
      from eq have "digit (n mod 10) = digit (m mod 10)" by simp
      then have r: "n mod 10 = m mod 10" by (intro digit_inj) simp_all
      from q r show ?thesis by (metis div_mult_mod_eq)
    qed
  qed
qed

lemma routeName_inj: "routeName i = routeName j \<Longrightarrow> i = j"
  by (simp add: routeName_def numberToString_inj)

lemma routeName_not_fixed:
  "routeName k \<noteq> ''Subnet''" "routeName k \<noteq> ''RouteTable''"
  "routeName k \<noteq> ''SubnetRouteTableAssoc''"
proof -
  show "routeName k \<noteq> ''Subnet''" "routeName k \<noteq> ''SubnetRouteTableAssoc''"
    by (simp_all add: routeName_def)
  show "routeName k \<noteq> ''RouteTable''"
  proof
    assume "routeName k = ''RouteTable''"
    then have "numberToString k = ''Table''" by (simp add: routeName_def)
    with numberToString_digits [of k] show False by simp
  qed
qed

section \<open>Steps of the loop\<close>

lemma newResource_fresh:
  "name \<notin> set (map fst self) \<Longrightarrow> newResource self name r = Done (self @ [(name, r)])"
  by (simp add: newResource_def addChild_def)

lemma newResource_taken:
  "name \<in> set (map fst self) \<Longrightarrow> newResource self name r = Failed (ConstructNameTaken name) self"
  by (simp add: newResource_def addChild_def)

lemma populatedTargets_routeProps:
  "populatedTargets (routeProps entry target) = populatedTargets target"
  by (simp add: populatedTargets_def routeProps_def)

lemma resolveTarget_supported:
  assumes "supportedTargetType (targetType entry)"
  shows "\<exists>target. resolveTarget entry = Inr target \<and>
           map snd (populatedTargets target) = [targetId entry]"
  using assms
  by (auto simp: supportedTargetType_def resolveTarget_def populatedTargets_def present_def)

lemma resolveTarget_unsupported:
  assumes "\<not> supportedTargetType (targetType entry)"
  shows "resolveTarget entry = Inl (Error (''Unsupported target type: '' @ targetType entry))"
  using assms by (simp add: supportedTargetType_def resolveTarget_def)

lemma resolveTarget_exclusive:
  assumes "resolveTarget entry = Inr target"
  shows "length (populatedTargets target) = 1"
  using assms
  by (auto simp: resolveTarget_def populatedTargets_def present_def split: if_splits)

lemma forEachEntry_append:
  "forEachEntry index (xs @ ys) self =
     andThen (forEachEntry index xs self) (forEachEntry (index + length xs) ys)"
proof (induction xs arbitrary: index self)
  case Nil
  show ?case by (simp add: andThen_def)
next
  case (Cons x xs)
  show ?case
  proof (cases "resolveTarget x")
    case (Inl e)
    then show ?thesis by (simp add: andThen_def)
  next
    case (Inr target)
    show ?thesis
    proof (cases "newResource self (routeName index) (CfnRoute (routeProps x target))")
      case (Done self')
      with Inr Cons.IH [of "Suc index" self'] show ?thesis by simp
    next
      case (Failed e self')
      with Inr show ?thesis by (simp add: andThen_def)
    qed
  qed
qed

lemma forEachEntry_succeeds:
  assumes "\<forall>e \<in> set es. supportedTargetType (targetType e)"
    and "\<forall>k \<ge> index. routeName k \<notin> set (map fst self)"
  shows "\<exists>rs. forEachEntry index es self = Done (self @ rs) \<and>
           list_all2 routeMatchesEntry (enumerate index es) rs"
  using assms
proof (induction es arbitrary: index self)
  case Nil
  show ?case by simp
next
  case (Cons x xs)
  from Cons.prems(1) have "supportedTargetType (targetType x)" by simp
  from resolveTarget_supported [OF this] obtain target
    where t: "resolveTarget x = Inr target"
      and v: "map snd (populatedTargets target) = [targetId x]" by auto
  define r where "r = (routeName index, CfnRoute (routeProps x target))"
  from Cons.prems(2) have "routeName index \<notin> set (map fst self)" by simp
  then have n: "newResource self (routeName index) (CfnRoute (routeProps x target))
      = Done (self @ [r])"
    unfolding r_def by (rule newResource_fresh)
  have fresh: "\<forall>k \<ge> Suc index. routeName k \<notin> set (map fst (self @ [r]))"
  proof (intro allI impI)
    fix k assume k: "Suc index \<le> k"
    then have "routeName k \<noteq> routeName index" using routeName_inj [of k index] by auto
    moreover from Cons.prems(2) k have "routeName k \<notin> set (map fst self)" by simp
    ultimately show "routeName k \<notin> set (map fst (self @ [r]))" by (simp add: r_def)
  qed
  from Cons.prems(1) have "\<forall>e \<in> set xs. supportedTargetType (targetType e)" by simp
  from Cons.IH [OF this fresh] obtain rs
    where rs: "forEachEntry (Suc index) xs (self @ [r]) = Done ((self @ [r]) @ rs)"
      and m: "list_all2 routeMatchesEntry (enumerate (Suc index) xs) rs" by auto
  have "routeMatchesEntry (index, x) r"
    by (simp add: r_def routeProps_def v populatedTargets_routeProps [unfolded routeProps_def])
  with m have "list_all2 routeMatchesEntry (enumerate index (x # xs)) (r # rs)" by simp
  moreover from t n rs have "forEachEntry index (x # xs) self = Done (self @ (r # rs))" by simp
  ultimately show ?case by blast
qed

lemma forEachEntry_node:
  "\<exists>rs. nodeOf (forEachEntry index es self) = self @ rs \<and> list_all exclusiveRoute rs"
proof (induction es arbitrary: index self)
  case Nil
  show ?case by simp
next
  case (Cons x xs)
  show ?case
  proof (cases "resolveTarget x")
    case (Inl e)
    then show ?thesis by simp
  next
    case (Inr target)
    define r where "r = (routeName index, CfnRoute (routeProps x target))"
    have ex: "exclusiveRoute r"
      by (simp add: r_def populatedTargets_routeProps resolveTarget_exclusive [OF Inr])
    show ?thesis
    proof (cases "newResource self (routeName index) (CfnRoute (routeProps x target))")
      case (Failed e self')
      with newResource_taken [of "routeName index" self "CfnRoute (routeProps x target)"]
        newResource_fresh [of "routeName index" self "CfnRoute (routeProps x target)"]
      have "self' = self" by (cases "routeName index \<in> set (map fst self)") simp_all
      with Inr Failed show ?thesis by simp
    next
      case (Done self')
      with newResource_taken [of "routeName index" self "CfnRoute (routeProps x target)"]
        newResource_fresh [of "routeName index" self "CfnRoute (routeProps x target)"]
      have s: "self' = self @ [r]"
        by (cases "routeName index \<in> set (map fst self)") (simp_all add: r_def)
      from Cons.IH [of "Suc index" self'] obtain rs
        where "nodeOf (forEachEntry (Suc index) xs self') = self' @ rs"
          and "list_all exclusiveRoute rs" by auto
      with Inr Done s ex
      have "nodeOf (forEachEntry index (x # xs) self) = self @ (r # rs) \<and>
          list_all exclusiveRoute (r # rs)" by simp
      then show ?thesis by blast
    qed
  qed
qed


section \<open>The constructor, step by step\<close>

lemma constructor_taken:
  "ident \<in> set (map fst scope) \<Longrightarrow>
     constructor scope ident props = Failed (ConstructNameTaken ident) []"
  by (simp add: constructor_def addChild_def)

lemma constructor_fresh:
  "ident \<notin> set (map fst scope) \<Longrightarrow>
     constructor scope ident props = forEachEntry 0 (entriesOf props) (baseResources props)"
  by (simp add: constructor_def addChild_def andThen_def newResource_def baseResources_def
      entriesOf_def addRouteTableEntries_def split: option.splits)

lemma baseResources_names:
  "map fst (baseResources props) = [''Subnet'', ''RouteTable'', ''SubnetRouteTableAssoc'']"
  by (simp add: baseResources_def)

lemma baseResources_no_route_name: "routeName k \<notin> set (map fst (baseResources props))"
  using routeName_not_fixed [of k] by (simp add: baseResources_names)

lemma baseResources_routeEntries:
  "baseResources (props\<lparr>routeEntries := x\<rparr>) = baseResources props"
  by (simp add: baseResources_def)

lemma matching_are_routes:
  "list_all2 routeMatchesEntry xs rs \<Longrightarrow> filter isRoute rs = rs"
proof (induction rule: list_all2_induct)
  case Nil
  show ?case by simp
next
  case (Cons x xs r rs)
  obtain k e where x: "x = (k, e)" by (cases x)
  obtain name res where r: "r = (name, res)" by (cases r)
  from Cons.hyps(1) have "isRoute r" unfolding x r by (cases res) simp_all
  with Cons.IH show ?case by simp
qed

lemma exclusive_are_routes:
  "list_all exclusiveRoute rs \<Longrightarrow> filter isRoute rs = rs \<and> subnetsOf rs = []"
proof (induction rs)
  case Nil
  show ?case by (simp add: subnetsOf_def)
next
  case (Cons r rs)
  obtain name res where r: "r = (name, res)" by (cases r)
  from Cons.prems have "isRoute r \<and> subnetProps r = []" unfolding r by (cases res) simp_all
  with Cons show ?case by (simp add: subnetsOf_def)
qed

lemma subnetsOf_append: "subnetsOf (xs @ ys) = subnetsOf xs @ subnetsOf ys"
  by (simp add: subnetsOf_def)

lemma subnetsOf_baseResources:
  "subnetsOf (baseResources props) =
     [\<lparr>subnet_vpcId = vpcId props, subnet_cidrBlock = cidrBlock props,
       subnet_availabilityZone = availabilityZone props, mapPublicIpOnLaunch = False,
       subnet_tags = convertTagsToCdkFormat (subnetTags props)\<rparr>]"
  by (simp add: subnetsOf_def baseResources_def)

lemma numberToString_0: "numberToString 0 = ''0''"
  by (subst numberToString.simps) (simp add: digit_def)

lemma routeName_0: "routeName 0 = ''Route0''"
  by (simp add: routeName_def numberToString_0)

lemma routesOf_baseResources: "routesOf (baseResources props @ rs) = filter isRoute rs"
  by (simp add: routesOf_def baseResources_def)

lemma forEachEntry_emits_first:
  assumes "forEachEntry index (e # es) self = Done self'"
  shows "routeName index \<in> set (map fst self')"
proof -
  from assms obtain target where t: "resolveTarget e = Inr target"
    by (cases "resolveTarget e") simp_all
  define r where "r = CfnRoute (routeProps e target)"
  from assms t obtain self1 where n: "newResource self (routeName index) r = Done self1"
    and rest: "forEachEntry (Suc index) es self1 = Done self'"
    unfolding r_def by (cases "newResource self (routeName index) (CfnRoute (routeProps e target))") simp_all
  from n have "routeName index \<in> set (map fst self1)"
    by (auto simp: newResource_def addChild_def split: if_splits)
  moreover from forEachEntry_node [of "Suc index" es self1] rest
  obtain rs where "self' = self1 @ rs" by auto
  ultimately show ?thesis by simp
qed


lemma addRouteTableEntries_after_routes:
  assumes "constructor scope ident props = Done self"
    and "routeEntries props = Some (e # es)"
    and "supportedTargetType (targetType e')"
  shows "addRouteTableEntries self (e' # es') = Failed (ConstructNameTaken (routeName 0)) self"
proof -
  from assms(1) have fresh: "ident \<notin> set (map fst scope)"
    by (cases "ident \<in> set (map fst scope)") (simp_all add: constructor_taken)
  from constructor_fresh [OF fresh, of props] assms(1,2)
  have "forEachEntry 0 (e # es) (baseResources props) = Done self"
    by (simp add: entriesOf_def)
  then have "routeName 0 \<in> set (map fst self)" by (rule forEachEntry_emits_first)
  then have "newResource self (routeName 0) r = Failed (ConstructNameTaken (routeName 0)) self"
    for r by (rule newResource_taken)
  moreover from resolveTarget_supported [OF assms(3)] obtain target
    where "resolveTarget e' = Inr target" by auto
  ultimately show ?thesis by (simp add: addRouteTableEntries_def)
qed

lemma addRouteTableEntries_first_call:
  assumes "constructor scope ident props = Done self"
    and "entriesOf props = []"
    and "\<forall>e \<in> set es. supportedTargetType (targetType e)"
  shows "\<exists>rs. addRouteTableEntries self es = Done (self @ rs) \<and>
           list_all2 routeMatchesEntry (enumerate 0 es) rs"
proof -
  from assms(1) have fresh: "ident \<notin> set (map fst scope)"
    by (cases "ident \<in> set (map fst scope)") (simp_all add: constructor_taken)
  from constructor_fresh [OF fresh, of props] assms(1,2)
  have self: "self = baseResources props" by simp
  have "\<forall>k \<ge> 0. routeName k \<notin> set (map fst self)"
    unfolding self by (intro allI impI baseResources_no_route_name)
  from forEachEntry_succeeds [OF assms(3) this] show ?thesis
    by (simp add: addRouteTableEntries_def)
qed

section \<open>Claims\<close>

subsection \<open>\<open>resolveTarget\<close>\<close>

text \<open>
  C1. \<open>resolveTarget\<close> returns, without throwing, for each of the four target types of
  the enumeration, and the object it returns has exactly one property, which holds the
  entry's \<open>targetId\<close>: \<open>transitGatewayId\<close> for the transit gateway type (spelled \<open>'tgw'\<close> in
  the source), \<open>vpcEndpointId\<close> for \<open>'vpc-endpoint'\<close>, \<open>gatewayId\<close> for
  \<open>'internet-gateway'\<close> and \<open>natGatewayId\<close> for \<open>'nat-gateway'\<close>.
\<close>

theorem resolveTarget_enumeration:
  "resolveTarget \<lparr>destinationCidr = d, targetType = ''tgw'', targetId = t\<rparr> =
     Inr \<lparr>transitGatewayId = Some t, vpcEndpointId = None, gatewayId = None,
          natGatewayId = None\<rparr> \<and>
   resolveTarget \<lparr>destinationCidr = d, targetType = ''vpc-endpoint'', targetId = t\<rparr> =
     Inr \<lparr>transitGatewayId = None, vpcEndpointId = Some t, gatewayId = None,
          natGatewayId = None\<rparr> \<and>
   resolveTarget \<lparr>destinationCidr = d, targetType = ''internet-gateway'', targetId = t\<rparr> =
     Inr \<lparr>transitGatewayId = None, vpcEndpointId = None, gatewayId = Some t,
          natGatewayId = None\<rparr> \<and>
   resolveTarget \<lparr>destinationCidr = d, targetType = ''nat-gateway'', targetId = t\<rparr> =
     Inr \<lparr>transitGatewayId = None, vpcEndpointId = None, gatewayId = None,
          natGatewayId = Some t\<rparr>"
  by (simp add: resolveTarget_def)

text \<open>
  C4. An entry whose target type is none of the four makes \<open>resolveTarget\<close> throw an
  \<open>Error\<close> whose message ends with the offending value. The \<open>forEach\<close> body throws at such
  an entry before it constructs the \<open>CfnRoute\<close>, whatever its index: the node is left as it
  was, with no \<open>Route\<close> for that entry.
\<close>

theorem unsupported_kind_rejected:
  assumes "\<not> supportedTargetType (targetType entry)"
  shows "resolveTarget entry =
           Inl (Error (''Unsupported target type: '' @ targetType entry)) \<and>
         forEachEntry index (entry # rest) self =
           Failed (Error (''Unsupported target type: '' @ targetType entry)) self \<and>
         addRouteTableEntries self (entry # rest) =
           Failed (Error (''Unsupported target type: '' @ targetType entry)) self"
  using resolveTarget_unsupported [OF assms] by (simp add: addRouteTableEntries_def)

theorem unsupported_kind_rejected_witness:
  "\<not> supportedTargetType (targetType vpnEntry) \<and>
   resolveTarget vpnEntry = Inl (Error ''Unsupported target type: vpn-gateway'') \<and>
   forEachEntry 0 [vpnEntry] segmentBase =
     Failed (Error ''Unsupported target type: vpn-gateway'') segmentBase \<and>
   addRouteTableEntries segmentBase [vpnEntry] =
     Failed (Error ''Unsupported target type: vpn-gateway'') segmentBase"
  using unsupported_kind_rejected [of vpnEntry 0 "[]" segmentBase]
  by (simp add: supportedTargetType_def)

subsection \<open>The routes of a construct\<close>

text \<open>
  C2. When the construct's id is free in its scope and every route entry has one of the
  four target types, the constructor returns, and the node holds the three fixed
  resources followed by one \<open>Route\<close> per entry of \<open>props.routeEntries\<close> (none when the list
  is absent): the \<open>k\<close>-th \<open>Route\<close> is named \<open>Route\<close>\<open>k\<close> and carries the destination and the
  target id of the \<open>k\<close>-th entry.
\<close>

theorem route_count_and_order:
  assumes "ident \<notin> set (map fst scope)"
    and "\<forall>e \<in> set (entriesOf props). supportedTargetType (targetType e)"
  shows "\<exists>self. constructor scope ident props = Done self \<and>
           length self = 3 + length (entriesOf props) \<and>
           length (routesOf self) = length (entriesOf props) \<and>
           list_all2 routeMatchesEntry (enumerate 0 (entriesOf props)) (routesOf self)"
proof -
  have "\<forall>k \<ge> 0. routeName k \<notin> set (map fst (baseResources props))"
    by (intro allI impI baseResources_no_route_name)
  from forEachEntry_succeeds [OF assms(2) this] obtain rs
    where d: "forEachEntry 0 (entriesOf props) (baseResources props)
        = Done (baseResources props @ rs)"
      and m: "list_all2 routeMatchesEntry (enumerate 0 (entriesOf props)) rs" by auto
  from m have l: "length rs = length (entriesOf props)"
    using list_all2_lengthD by fastforce
  from m have r: "routesOf (baseResources props @ rs) = rs"
    by (simp add: routesOf_baseResources matching_are_routes)
  have "length (baseResources props) = 3" by (simp add: baseResources_def)
  with d m l r constructor_fresh [OF assms(1), of props] show ?thesis by simp
qed

theorem route_count_and_order_witness:
  "''Seg'' \<notin> set (map fst ([] :: (string \<times> node) list)) \<and>
   supportedTargetType (targetType igwEntry) \<and> supportedTargetType (targetType natEntry) \<and>
   (\<exists>self. constructor [] ''Seg'' (segment (Some [igwEntry, natEntry])) = Done self \<and>
      length self = 5 \<and> length (routesOf self) = 2 \<and>
      list_all2 routeMatchesEntry [(0, igwEntry), (1, natEntry)] (routesOf self))"
  using route_count_and_order [of "''Seg''" "[]" "segment (Some [igwEntry, natEntry])"]
  by (simp add: entriesOf_def supportedTargetType_def numeral_2_eq_2)

text \<open>
  C3. Every \<open>Route\<close> in the node that the constructor leaves behind, whether it returned or
  threw, has exactly one of its four target properties set. Everything that a call of
  \<open>addRouteTableEntries\<close> adds to a node is such a \<open>Route\<close>.
\<close>

theorem target_exclusivity:
  "list_all exclusiveRoute (routesOf (nodeOf (constructor scope ident props))) \<and>
   (\<exists>rs. nodeOf (addRouteTableEntries self entries) = self @ rs \<and>
      list_all exclusiveRoute rs)"
proof
  show "list_all exclusiveRoute (routesOf (nodeOf (constructor scope ident props)))"
  proof (cases "ident \<in> set (map fst scope)")
    case True
    then show ?thesis by (simp add: constructor_taken routesOf_def)
  next
    case False
    from forEachEntry_node [of 0 "entriesOf props" "baseResources props"] obtain rs
      where n: "nodeOf (forEachEntry 0 (entriesOf props) (baseResources props))
          = baseResources props @ rs"
        and e: "list_all exclusiveRoute rs" by auto
    from e have "filter isRoute rs = rs" by (simp add: exclusive_are_routes)
    with n e constructor_fresh [OF False, of props] show ?thesis
      by (simp add: routesOf_baseResources)
  qed
  show "\<exists>rs. nodeOf (addRouteTableEntries self entries) = self @ rs \<and>
      list_all exclusiveRoute rs"
    unfolding addRouteTableEntries_def by (rule forEachEntry_node)
qed

subsection \<open>Failure of the constructor\<close>

text \<open>
  C5, as stated, fails: with a single route entry of the unsupported type
  \<open>'vpn-gateway'\<close> the constructor throws only after it has declared the \<open>Subnet\<close>, the
  \<open>RouteTable\<close> and their association, which stay in the node.
\<close>

theorem define_throws_after_declarations_counterexample:
  "constructor [] ''Seg'' (segment (Some [vpnEntry])) =
     Failed (Error ''Unsupported target type: vpn-gateway'') segmentBase \<and>
   nodeOf (constructor [] ''Seg'' (segment (Some [vpnEntry]))) \<noteq> []"
  by (simp add: constructor_def addChild_def andThen_def newResource_def
      addRouteTableEntries_def resolveTarget_def convertTagsToCdkFormat_def)

text \<open>
  C5, amended. When the first route entry of an unsupported target type comes after the
  entries \<open>pre\<close>, the constructor throws the \<open>Error\<close> that names the offending value, and
  the node it leaves behind is the one that the constructor returns for the entries
  \<open>pre\<close> alone: the three fixed resources and one \<open>Route\<close> for each entry of \<open>pre\<close>, none
  for the offending entry or any later one.
\<close>

theorem define_fails_after_partial_emission:
  assumes "ident \<notin> set (map fst scope)"
    and "routeEntries props = Some (pre @ bad # post)"
    and "\<forall>e \<in> set pre. supportedTargetType (targetType e)"
    and "\<not> supportedTargetType (targetType bad)"
  shows "\<exists>self. constructor scope ident (props\<lparr>routeEntries := Some pre\<rparr>) = Done self \<and>
           constructor scope ident props =
             Failed (Error (''Unsupported target type: '' @ targetType bad)) self \<and>
           length self = 3 + length pre \<and> length (routesOf self) = length pre"
proof -
  let ?base = "baseResources props"
  have "\<forall>k \<ge> 0. routeName k \<notin> set (map fst ?base)"
    by (intro allI impI baseResources_no_route_name)
  from forEachEntry_succeeds [OF assms(3) this] obtain rs
    where d: "forEachEntry 0 pre ?base = Done (?base @ rs)"
      and m: "list_all2 routeMatchesEntry (enumerate 0 pre) rs" by auto
  from m have l: "length rs = length pre"
    using list_all2_lengthD by fastforce
  from m have r: "routesOf (?base @ rs) = rs"
    by (simp add: routesOf_baseResources matching_are_routes)
  have b: "length ?base = 3" by (simp add: baseResources_def)
  have ok: "constructor scope ident (props\<lparr>routeEntries := Some pre\<rparr>) = Done (?base @ rs)"
    using constructor_fresh [OF assms(1), of "props\<lparr>routeEntries := Some pre\<rparr>"] d
    by (simp add: entriesOf_def baseResources_routeEntries)
  have "forEachEntry 0 (pre @ bad # post) ?base =
      Failed (Error (''Unsupported target type: '' @ targetType bad)) (?base @ rs)"
    using d resolveTarget_unsupported [OF assms(4)]
    by (simp add: forEachEntry_append andThen_def)
  then have ko: "constructor scope ident props =
      Failed (Error (''Unsupported target type: '' @ targetType bad)) (?base @ rs)"
    using constructor_fresh [OF assms(1), of props] assms(2) by (simp add: entriesOf_def)
  from ok ko l r b show ?thesis by simp
qed

theorem define_fails_after_partial_emission_witness:
  "''Seg'' \<notin> set (map fst ([] :: (string \<times> node) list)) \<and>
   supportedTargetType (targetType igwEntry) \<and> \<not> supportedTargetType (targetType vpnEntry) \<and>
   (\<exists>self.
      constructor [] ''Seg'' (segment (Some [igwEntry])) = Done self \<and>
      constructor [] ''Seg'' (segment (Some [igwEntry, vpnEntry, natEntry])) =
        Failed (Error ''Unsupported target type: vpn-gateway'') self \<and>
      length self = 4 \<and> length (routesOf self) = 1)"
  using define_fails_after_partial_emission [of "''Seg''" "[]"
      "segment (Some [igwEntry, vpnEntry, natEntry])" "[igwEntry]" vpnEntry "[natEntry]"]
  by (simp add: supportedTargetType_def)

subsection \<open>Tags\<close>

text \<open>
  C6. \<open>convertTagsToCdkFormat\<close> returns \<open>undefined\<close> for \<open>undefined\<close>, and the empty list,
  which is not \<open>undefined\<close>, for the empty object. For any tag object it returns one
  \<open>{ key, value }\<close> per property, in the order in which \<open>Object.entries\<close> enumerates the
  properties, so the result is determined by the input. \<open>{env: 'prod', team: 'net'}\<close>
  gives the two tags \<open>env\<close>/\<open>prod\<close> and \<open>team\<close>/\<open>net\<close>.
\<close>

theorem convertTags_absent_empty_entries:
  "convertTagsToCdkFormat None = None \<and>
   convertTagsToCdkFormat (Some []) = Some [] \<and>
   convertTagsToCdkFormat (Some []) \<noteq> convertTagsToCdkFormat None \<and>
   (\<exists>out. convertTagsToCdkFormat (Some tags) = Some out \<and> length out = length tags \<and>
      map (\<lambda>t. (tagKey t, tagValue t)) out = tags) \<and>
   convertTagsToCdkFormat (Some [(''env'', ''prod''), (''team'', ''net'')]) =
     Some [\<lparr>tagKey = ''env'', tagValue = ''prod''\<rparr>, \<lparr>tagKey = ''team'', tagValue = ''net''\<rparr>]"
proof -
  have "map ((\<lambda>t. (tagKey t, tagValue t)) \<circ> (\<lambda>(k, v). \<lparr>tagKey = k, tagValue = v\<rparr>)) tags = tags"
    by (induction tags) auto
  then show ?thesis by (simp add: convertTagsToCdkFormat_def)
qed

subsection \<open>The subnet\<close>

text \<open>
  C7. Whatever the scope, the id and the props, every \<open>Subnet\<close> in the node that the
  constructor leaves behind has \<open>mapPublicIpOnLaunch\<close> set to \<open>false\<close>; when the id is free
  in the scope there is exactly one \<open>Subnet\<close>.
\<close>

theorem subnet_public_ip_disabled:
  "list_all (\<lambda>p. \<not> mapPublicIpOnLaunch p)
     (subnetsOf (nodeOf (constructor scope ident props))) \<and>
   (ident \<notin> set (map fst scope) \<longrightarrow>
      length (subnetsOf (nodeOf (constructor scope ident props))) = 1)"
proof (cases "ident \<in> set (map fst scope)")
  case True
  then show ?thesis by (simp add: constructor_taken subnetsOf_def)
next
  case False
  from forEachEntry_node [of 0 "entriesOf props" "baseResources props"] obtain rs
    where n: "nodeOf (forEachEntry 0 (entriesOf props) (baseResources props))
        = baseResources props @ rs"
      and e: "list_all exclusiveRoute rs" by auto
  from e have "subnetsOf rs = []" by (simp add: exclusive_are_routes)
  with n constructor_fresh [OF False, of props] show ?thesis
    by (simp add: subnetsOf_append subnetsOf_baseResources)
qed

theorem subnet_public_ip_disabled_witness:
  "''Seg'' \<notin> set (map fst ([] :: (string \<times> node) list)) \<and>
   subnetsOf (nodeOf (constructor [] ''Seg''
     \<lparr>vpcId = ''vpc-1'', cidrBlock = ''10.0.1.0/24'', availabilityZone = ''us-east-1a'',
      routeEntries = Some [igwEntry], subnetTags = Some [(''public'', ''true'')],
      routeTableTags = None\<rparr>)) =
   [\<lparr>subnet_vpcId = ''vpc-1'', subnet_cidrBlock = ''10.0.1.0/24'',
     subnet_availabilityZone = ''us-east-1a'', mapPublicIpOnLaunch = False,
     subnet_tags = Some [\<lparr>tagKey = ''public'', tagValue = ''true''\<rparr>]\<rparr>]"
  using subnet_public_ip_disabled [of "[]" "''Seg''"
     "\<lparr>vpcId = ''vpc-1'', cidrBlock = ''10.0.1.0/24'', availabilityZone = ''us-east-1a'',
      routeEntries = Some [igwEntry], subnetTags = Some [(''public'', ''true'')],
      routeTableTags = None\<rparr>"]
  by (simp add: constructor_def addChild_def andThen_def newResource_def subnetsOf_def
      convertTagsToCdkFormat_def addRouteTableEntries_def resolveTarget_def routeName_0)

subsection \<open>Appending routes after construction\<close>

text \<open>
  C9 fails on the code. The name of a \<open>Route\<close> is derived from the index of its entry in
  the list of the current call, so a call of \<open>addRouteTableEntries\<close> on a construct whose
  constructor already declared a route asks for the name \<open>Route0\<close> again: the construct
  tree refuses it, the call throws and adds nothing.
\<close>

theorem append_after_construction_name_taken:
  "constructor [] ''Seg'' (segment (Some [igwEntry])) = Done (segmentBase @ [igwRoute0]) \<and>
   addRouteTableEntries (segmentBase @ [igwRoute0]) [natEntry] =
     Failed (ConstructNameTaken ''Route0'') (segmentBase @ [igwRoute0])"
  by (simp add: constructor_def addChild_def andThen_def newResource_def
      addRouteTableEntries_def resolveTarget_def convertTagsToCdkFormat_def
      routeName_0 routeProps_def)

end
